theory Spec2Isabelle
  imports Complex_Main
begin

section \<open>The celebration-video generator\<close>

text \<open>
  The development embeds \<^verbatim>\<open>generate_celebration_videos.py\<close>: the function
  \<^verbatim>\<open>create_celebration_video(rarity, output_path)\<close> and the driver \<^verbatim>\<open>main()\<close>.
  \<^verbatim>\<open>os.makedirs\<close> in \<^verbatim>\<open>main()\<close> is taken to succeed and leaves no trace in the model.

  Conventions of the embedding.
  \<^item> Python floats are read as real numbers (\<^typ>\<open>real\<close>). Rounding is modelled for
    the particle size only, the one float the source truncates to an integer.
    Python ints are \<^typ>\<open>int\<close>, loop indices from \<^verbatim>\<open>range(n)\<close> are \<^typ>\<open>nat\<close>.
  \<^item> The process-global generator of the \<^verbatim>\<open>random\<close> module is library code; it is
    a parameter: a state type \<open>'g\<close> with the operations \<^verbatim>\<open>random.seed(n)\<close>,
    \<^verbatim>\<open>random.random()\<close> and \<^verbatim>\<open>random.randint(a, b)\<close>, each a function on the
    state. Nothing is assumed of them in the definitions; a theorem that needs a fact of
    the library (seeding overwrites the state, the bounds of a draw) states it as a
    hypothesis.
  \<^item> The encoder is an external program: \<^verbatim>\<open>subprocess.run(cmd, ...)\<close> is a parameter
    \<open>enc\<close> that maps the command to one of the three outcomes the source handles
    (a completed process with its return code and error stream, a timeout, a missing
    binary). Any other exception of \<^verbatim>\<open>subprocess.run\<close> is outside the model.
  \<^item> Every f-string of the source that builds a filter is kept as the instantiated
    template: a constructor that holds the values substituted for the holes, in the
    order of the holes. Labels such as \<^verbatim>\<open>[tmp7]\<close> are a constructor and the number;
    \<open>label_name\<close> gives their text.
  \<^item> Printing and spawning are effects on an explicit world state.
\<close>

subsection \<open>The pseudo-random generator\<close>

record 'g prng =
  rng_seed :: "int \<Rightarrow> 'g \<Rightarrow> 'g"
  rng_random :: "'g \<Rightarrow> real \<times> 'g"
  rng_randint :: "int \<Rightarrow> int \<Rightarrow> 'g \<Rightarrow> int \<times> 'g"

text \<open>\<^verbatim>\<open>random.uniform(a, b)\<close> is \<^verbatim>\<open>a + (b - a) * self.random()\<close>: one draw.\<close>

definition uniform :: "'g prng \<Rightarrow> real \<Rightarrow> real \<Rightarrow> 'g \<Rightarrow> real \<times> 'g" where
  "uniform R a b g = (case rng_random R g of (r, g') \<Rightarrow> (a + (b - a) * r, g'))"

text \<open>\<^verbatim>\<open>int(x)\<close> on a float truncates towards zero.\<close>

definition int_py :: "real \<Rightarrow> int" where
  "int_py x = (if 0 \<le> x then \<lfloor>x\<rfloor> else \<lceil>x\<rceil>)"

text \<open>
  The particle size is a float whose integer part the graph uses, so its rounding is
  modelled: \<open>binary64 x\<close> is the double nearest to \<open>x\<close>, ties to the even significand
  (53 bits, exponent unbounded: no subnormals, no overflow).
\<close>

definition round_half_even :: "real \<Rightarrow> int" where
  "round_half_even q =
    (let f = \<lfloor>q\<rfloor>
     in if q - of_int f < 1 / 2 then f
        else if 1 / 2 < q - of_int f then f + 1
        else if even f then f else f + 1)"

definition binary64 :: "real \<Rightarrow> real" where
  "binary64 x =
    (if x = 0 then 0
     else let e = \<lfloor>log 2 \<bar>x\<bar>\<rfloor>;
              ulp = 2 powr of_int (e - 52)
          in sgn x * of_int (round_half_even (\<bar>x\<bar> / ulp)) * ulp)"

subsection \<open>The filter graph\<close>

text \<open>
  The labels the source writes: \<^verbatim>\<open>[bg]\<close>, \<^verbatim>\<open>[p{i}]\<close>, \<^verbatim>\<open>[tmp{i}]\<close>, \<^verbatim>\<open>[ray{ray}]\<close>,
  \<^verbatim>\<open>[ray_tmp{ray}]\<close>.
\<close>

datatype label = Bg | P nat | Tmp nat | Ray nat | RayTmp nat

text \<open>
  The text of a label: \<^verbatim>\<open>f"tmp{i}"\<close> writes the index in decimal, as \<^verbatim>\<open>str(i)\<close> does.
\<close>

definition digits :: string where
  "digits = ''0123456789''"

fun str_nat :: "nat \<Rightarrow> string" where
  "str_nat n = (if n < 10 then [digits ! n] else str_nat (n div 10) @ [digits ! (n mod 10)])"

fun label_name :: "label \<Rightarrow> string" where
  "label_name Bg = ''bg''"
| "label_name (P i) = ''p'' @ str_nat i"
| "label_name (Tmp i) = ''tmp'' @ str_nat i"
| "label_name (Ray i) = ''ray'' @ str_nat i"
| "label_name (RayTmp i) = ''ray_tmp'' @ str_nat i"

declare str_nat.simps [simp del]

text \<open>
  The time expressions the source writes:
  \<^verbatim>\<open>"{a}+({b}-{a})*t/{d}"\<close> is \<open>Linear a b d\<close>,
  \<^verbatim>\<open>"{a}+({b}-{a})*easeout(t/{d})"\<close> is \<open>EaseOut a b d\<close>,
  \<^verbatim>\<open>"1-t/{d}"\<close> is \<open>FadeOut d\<close>.
\<close>

datatype expr = Linear real real real | EaseOut real real real | FadeOut real

text \<open>
  The two filters the source writes:
  \<^verbatim>\<open>"color=c={c}:s={w}x{h}:d={d}:r={r}[{out}]"\<close> and
  \<^verbatim>\<open>"[{base}][{top}]overlay=x='{x}':y='{y}'[:alpha='{alpha}']:eval=frame[:format=auto][{out}]"\<close>.
\<close>

datatype filter =
    ColorSrc (src_color: string) (src_w: int) (src_h: int) (src_d: real) (src_r: int)
      (out_label: label)
  | Overlay (base_in: label) (top_in: label) (x_expr: expr) (y_expr: expr)
      (alpha_expr: "expr option") (format_auto: bool) (out_label: label)

fun inputs :: "filter \<Rightarrow> label list" where
  "inputs (ColorSrc c w h d r out) = []"
| "inputs (Overlay base ov x y a f out) = [base, ov]"

fun is_overlay :: "filter \<Rightarrow> bool" where
  "is_overlay (ColorSrc c w h d r out) = False"
| "is_overlay (Overlay base ov x y a f out) = True"

text \<open>
  The command list: \<open>input_args\<close> are the items before \<^verbatim>\<open>'-filter_complex'\<close>,
  \<open>filter_complex\<close> the filters joined by \<^verbatim>\<open>";"\<close>, \<open>map_label\<close> the label after
  \<^verbatim>\<open>'-map'\<close>, \<open>encoder_args\<close> the items between it and the output path.
\<close>

record ffmpeg_cmd =
  input_args :: "string list"
  filter_complex :: "filter list"
  map_label :: label
  encoder_args :: "string list"
  cmd_output_path :: string

datatype run_result = Completed int string | TimeoutExpired | FileNotFoundError

subsection \<open>Video specifications and rarity settings\<close>

definition duration :: real where "duration = 1.5"
definition fps :: int where "fps = 30"
definition width :: int where "width = 720"
definition height :: int where "height = 1280"

definition center_x :: int where "center_x = width div 2"
definition center_y :: int where "center_y = height div 3"

record settings =
  bg_color :: string
  particle_count :: nat
  particle_colors :: "string list"
  effects :: "string list"

definition rarity_settings :: "string \<Rightarrow> settings" where
  "rarity_settings rarity =
    (if rarity = ''common'' then
       \<lparr>bg_color = ''transparent'', particle_count = 30,
        particle_colors = [''#32CD32'', ''#90EE90''], effects = []\<rparr>
     else if rarity = ''uncommon'' then
       \<lparr>bg_color = ''transparent'', particle_count = 60,
        particle_colors = [''#4A90E2'', ''#00CED1''], effects = [''burst_rays'']\<rparr>
     else
       \<lparr>bg_color = ''transparent'', particle_count = 100,
        particle_colors = [''#FF6B35'', ''#FFD700''],
        effects = [''burst_rays'', ''shockwave'']\<rparr>)"

subsection \<open>The particle loop\<close>

text \<open>
  The local variables of one iteration of \<^verbatim>\<open>for i in range(particle_count)\<close>, kept as a
  record so that the claims can speak of the particle the iteration simulates.
  \<^verbatim>\<open>size = 2 + random.uniform(0, 3)\<close> rounds twice: the product \<^verbatim>\<open>(b - a) * random()\<close>
  inside \<^verbatim>\<open>uniform\<close> (its sum with \<^verbatim>\<open>a = 0\<close> is exact), and the sum with 2.
\<close>

record particle =
  p_index :: nat
  p_angle :: real
  p_velocity :: real
  p_end_x :: real
  p_end_y :: real
  p_size :: real
  p_color :: string

definition draw_particle :: "'g prng \<Rightarrow> string list \<Rightarrow> nat \<Rightarrow> 'g \<Rightarrow> particle \<times> 'g" where
  "draw_particle R colors i g =
    (case uniform R 0 (2 * pi) g of (angle, g1) \<Rightarrow>
     case uniform R 0.0 1.0 g1 of (velocity, g2) \<Rightarrow>
     let max_radius = 432 * velocity;
         end_x = real_of_int center_x + cos angle * max_radius;
         end_y = real_of_int center_y + sin angle * max_radius
     in case uniform R 0 3 g2 of (u, g3) \<Rightarrow>
     let size = binary64 (2 + binary64 u);
         color = colors ! (i mod length colors)
     in (\<lparr>p_index = i, p_angle = angle, p_velocity = velocity, p_end_x = end_x,
          p_end_y = end_y, p_size = size, p_color = color\<rparr>, g3))"

text \<open>
  The two filters one iteration appends. \<^verbatim>\<open>alpha_expr = f"1-t/{duration}"\<close> is computed
  by the source and never used: the overlay string has no \<^verbatim>\<open>alpha\<close> option.
\<close>

definition particle_filters :: "particle \<Rightarrow> filter list" where
  "particle_filters p =
    (let i = p_index p;
         particle_size = int_py (p_size p);
         x_expr = Linear (real_of_int center_x) (p_end_x p) duration;
         y_expr = Linear (real_of_int center_y) (p_end_y p) duration;
         alpha_expr = FadeOut duration;
         input_layer = (if i = 0 then Bg else Tmp (i - 1))
     in [ColorSrc (p_color p) particle_size particle_size duration fps (P i),
         Overlay input_layer (P i) x_expr y_expr None True (Tmp i)])"

definition particle_step ::
  "'g prng \<Rightarrow> string list \<Rightarrow> nat \<Rightarrow> 'g \<times> particle list \<times> filter list
    \<Rightarrow> 'g \<times> particle list \<times> filter list" where
  "particle_step R colors i st =
    (case st of (g, ps, filters) \<Rightarrow>
     case draw_particle R colors i g of (p, g') \<Rightarrow>
       (g', ps @ [p], filters @ particle_filters p))"

subsection \<open>The burst-ray loop\<close>

record ray =
  r_index :: nat
  r_angle :: real
  r_end_x :: real
  r_end_y :: real

definition make_ray :: "nat \<Rightarrow> nat \<Rightarrow> ray" where
  "make_ray ray_count i =
    (let angle = (2 * pi / real ray_count) * real i;
         max_length = 720 * 0.15;
         end_x = real_of_int center_x + cos angle * max_length;
         end_y = real_of_int center_y + sin angle * max_length
     in \<lparr>r_index = i, r_angle = angle, r_end_x = end_x, r_end_y = end_y\<rparr>)"

definition ray_filters :: "label \<Rightarrow> ray \<Rightarrow> filter list" where
  "ray_filters final_layer r =
    (let x_expr = Linear (real_of_int center_x) (r_end_x r) duration;
         y_expr = Linear (real_of_int center_y) (r_end_y r) duration
     in [ColorSrc ''#FFD700'' 2 20 duration fps (Ray (r_index r)),
         Overlay final_layer (Ray (r_index r)) x_expr y_expr None True
           (RayTmp (r_index r))])"

definition ray_step ::
  "nat \<Rightarrow> nat \<Rightarrow> label \<times> ray list \<times> filter list \<Rightarrow> label \<times> ray list \<times> filter list" where
  "ray_step ray_count i st =
    (case st of (final_layer, rs, filters) \<Rightarrow>
     let r = make_ray ray_count i
     in (RayTmp i, rs @ [r], filters @ ray_filters final_layer r))"

subsection \<open>Simulation and compilation: the body up to the command\<close>

text \<open>
  \<open>simulate\<close> is the body of \<^verbatim>\<open>create_celebration_video\<close> from the rarity settings to
  the last value of \<^verbatim>\<open>final_layer\<close>; its argument \<open>g\<close> is the state of the process-global
  generator when the function is called. The result holds what the body leaves behind:
  the list \<^verbatim>\<open>filters\<close>, \<^verbatim>\<open>final_layer\<close>, the generator's state, and the particles and
  rays of the iterations in loop order. \<^verbatim>\<open>for i in range(n)\<close> is a \<open>fold\<close> over
  \<open>[0..<n]\<close>. \<^verbatim>\<open>ray_count\<close> is \<^verbatim>\<open>48 if rarity == 'rare' else 32\<close>.
\<close>

record 'g simulation =
  sim_particles :: "particle list"
  sim_rays :: "ray list"
  sim_filters :: "filter list"
  sim_final :: label
  sim_rng :: 'g

definition ray_count_of :: "string \<Rightarrow> nat" where
  "ray_count_of rarity = (if rarity = ''rare'' then 48 else 32)"

definition simulate :: "'g prng \<Rightarrow> string \<Rightarrow> 'g \<Rightarrow> 'g simulation" where
  "simulate R rarity g =
    (let cfg = rarity_settings rarity;
         filters0 = [ColorSrc ''black@0.0'' width height duration fps Bg];
         g0 = rng_seed R 42 g
     in case fold (particle_step R (particle_colors cfg)) [0..<particle_count cfg]
               (g0, [], filters0) of (g1, ps, filters1) \<Rightarrow>
     let final_layer = (if particle_count cfg > 0 then Tmp (particle_count cfg - 1) else Bg)
     in case (if ''burst_rays'' \<in> set (effects cfg)
              then fold (ray_step (ray_count_of rarity)) [0..<ray_count_of rarity]
                     (final_layer, [], filters1)
              else (final_layer, [], filters1)) of (final_layer', rs, filters2) \<Rightarrow>
       \<lparr>sim_particles = ps, sim_rays = rs, sim_filters = filters2,
        sim_final = final_layer', sim_rng = g1\<rparr>)"

subsection \<open>The encoder invocation and the driver\<close>

datatype message =
    Generating string
  | CommandPreview
  | Created string
  | FFmpegError string
  | TimeoutMsg string
  | FFmpegNotFound
  | FailedToCreate string
  | AllGenerated
  | SavedTo string

record 'g world =
  rng_state :: 'g
  printed :: "message list"
  run_calls :: "ffmpeg_cmd list"

text \<open>
  The world: the generator's state, the lines printed so far, and the commands handed
  to \<^verbatim>\<open>subprocess.run\<close> so far (a call that times out or finds no binary is logged as
  well: the log records invocations, not successes). The lavfi input of the command is
  the source's f-string with the constants filled in.
\<close>

definition build_cmd :: "'g simulation \<Rightarrow> string \<Rightarrow> ffmpeg_cmd" where
  "build_cmd s output_path =
    (\<lparr>input_args = [''ffmpeg'', ''-y'', ''-f'', ''lavfi'', ''-i'',
                       ''color=c=black@0.0:s=720x1280:d=1.5:r=30''],
         filter_complex = sim_filters s, map_label = sim_final s,
         encoder_args = [''-c:v'', ''libx264'', ''-pix_fmt'', ''yuv420p'', ''-crf'', ''18'',
                         ''-preset'', ''fast'', ''-movflags'', ''+faststart''],
         cmd_output_path = output_path\<rparr>)"

definition say :: "message list \<Rightarrow> 'g world \<Rightarrow> 'g world" where
  "say ms w = w\<lparr>printed := printed w @ ms\<rparr>"

definition create_celebration_video ::
  "'g prng \<Rightarrow> (ffmpeg_cmd \<Rightarrow> run_result) \<Rightarrow> string \<Rightarrow> string \<Rightarrow> 'g world
    \<Rightarrow> bool \<times> 'g world" where
  "create_celebration_video R enc rarity output_path w =
    (let s = simulate R rarity (rng_state w);
         cmd = build_cmd s output_path;
         w1 = say [Generating rarity, CommandPreview] (w\<lparr>rng_state := sim_rng s\<rparr>);
         w2 = w1\<lparr>run_calls := run_calls w1 @ [cmd]\<rparr>
     in case enc cmd of
          Completed returncode err \<Rightarrow>
            if returncode = 0 then (True, say [Created output_path] w2)
            else (False, say [FFmpegError err] w2)
        | TimeoutExpired \<Rightarrow> (False, say [TimeoutMsg rarity] w2)
        | FileNotFoundError \<Rightarrow> (False, say [FFmpegNotFound] w2))"

definition output_dir :: string where
  "output_dir = ''/home/oliver/Desktop/swapdotz_flutter/assets/celebration_videos''"

definition output_path_of :: "string \<Rightarrow> string" where
  "output_path_of rarity = output_dir @ ''/'' @ rarity @ ''_celebration.mp4''"

definition rarities :: "string list" where
  "rarities = [''common'', ''uncommon'', ''rare'']"

fun main_loop ::
  "'g prng \<Rightarrow> (ffmpeg_cmd \<Rightarrow> run_result) \<Rightarrow> string list \<Rightarrow> 'g world \<Rightarrow> bool \<times> 'g world" where
  "main_loop R enc [] w = (True, say [AllGenerated, SavedTo output_dir] w)"
| "main_loop R enc (rarity # rest) w =
    (case create_celebration_video R enc rarity (output_path_of rarity) w of
       (success, w1) \<Rightarrow>
         if \<not> success then (False, say [FailedToCreate rarity] w1)
         else main_loop R enc rest w1)"

definition main :: "'g prng \<Rightarrow> (ffmpeg_cmd \<Rightarrow> run_result) \<Rightarrow> 'g world \<Rightarrow> bool \<times> 'g world" where
  "main R enc w = main_loop R enc rarities w"

text \<open>
  The script's last lines are \<^verbatim>\<open>if __name__ == "__main__": main()\<close>: the value of
  \<^verbatim>\<open>main()\<close> is dropped and the interpreter exits with status 0.
\<close>

definition script_exit_status ::
  "'g prng \<Rightarrow> (ffmpeg_cmd \<Rightarrow> run_result) \<Rightarrow> 'g world \<Rightarrow> int \<times> 'g world" where
  "script_exit_status R enc w = (case main R enc w of (result, w') \<Rightarrow> (0, w'))"

subsection \<open>The sibling variant\<close>

text \<open>
  \<^verbatim>\<open>generate_better_celebration_videos.py\<close> holds a second generator,
  \<^verbatim>\<open>create_dramatic_celebration_video\<close>. It is embedded up to its filter graph: it never
  seeds the generator, draws with \<^verbatim>\<open>random.randint\<close> as well, clamps the end position
  to the canvas, eases the position and hands the opacity expression to the overlay.
  The particles are the dicts the source appends to \<^verbatim>\<open>particles\<close>; the second loop runs
  over \<^verbatim>\<open>enumerate(particles)\<close>.
\<close>

definition dramatic_duration :: real where "dramatic_duration = 2.0"

record dramatic_settings =
  d_bg_color :: string
  d_primary_color :: string
  d_secondary_color :: string
  d_particle_count :: nat
  d_particle_size :: int
  d_speed_multiplier :: real

definition dramatic_rarity_settings :: "string \<Rightarrow> dramatic_settings" where
  "dramatic_rarity_settings rarity =
    (if rarity = ''common'' then
       \<lparr>d_bg_color = ''#1a1a2e'', d_primary_color = ''#32CD32'',
        d_secondary_color = ''#90EE90'', d_particle_count = 50, d_particle_size = 12,
        d_speed_multiplier = 1.0\<rparr>
     else if rarity = ''uncommon'' then
       \<lparr>d_bg_color = ''#1a1a2e'', d_primary_color = ''#4A90E2'',
        d_secondary_color = ''#00CED1'', d_particle_count = 100, d_particle_size = 16,
        d_speed_multiplier = 1.5\<rparr>
     else
       \<lparr>d_bg_color = ''#1a1a2e'', d_primary_color = ''#FF6B35'',
        d_secondary_color = ''#FFD700'', d_particle_count = 150, d_particle_size = 20,
        d_speed_multiplier = 2.0\<rparr>)"

record dramatic_particle =
  dp_start_x :: int
  dp_start_y :: int
  dp_end_x :: real
  dp_end_y :: real
  dp_color :: string
  dp_size :: int

definition draw_dramatic_particle ::
  "'g prng \<Rightarrow> dramatic_settings \<Rightarrow> nat \<Rightarrow> 'g \<Rightarrow> dramatic_particle \<times> 'g" where
  "draw_dramatic_particle R cfg i g =
    (case rng_randint R (- 100) 100 g of (dx, g1) \<Rightarrow>
     case rng_randint R (- 50) 50 g1 of (dy, g2) \<Rightarrow>
     let start_x = center_x + dx;
         start_y = center_y + dy
     in case uniform R 0 (2 * pi) g2 of (angle, g3) \<Rightarrow>
     case uniform R 200 400 g3 of (u, g4) \<Rightarrow>
     let distance = u * d_speed_multiplier cfg;
         end_x = real_of_int start_x + cos angle * distance;
         end_y = real_of_int start_y + sin angle * distance;
         end_x = max 0 (min (real_of_int width) end_x);
         end_y = max 0 (min (real_of_int height) end_y);
         color = (if i mod 3 \<noteq> 0 then d_primary_color cfg else d_secondary_color cfg)
     in case rng_randint R (- 4) 4 g4 of (ds, g5) \<Rightarrow>
       (\<lparr>dp_start_x = start_x, dp_start_y = start_y, dp_end_x = end_x, dp_end_y = end_y,
         dp_color = color, dp_size = d_particle_size cfg + ds\<rparr>, g5))"

definition dramatic_step ::
  "'g prng \<Rightarrow> dramatic_settings \<Rightarrow> nat \<Rightarrow> 'g \<times> dramatic_particle list
    \<Rightarrow> 'g \<times> dramatic_particle list" where
  "dramatic_step R cfg i st =
    (case st of (g, particles) \<Rightarrow>
     case draw_dramatic_particle R cfg i g of (p, g') \<Rightarrow> (g', particles @ [p]))"

definition dramatic_particle_filters :: "nat \<times> dramatic_particle \<Rightarrow> filter list" where
  "dramatic_particle_filters ip =
    (case ip of (i, particle) \<Rightarrow>
     let x_expr = EaseOut (real_of_int (dp_start_x particle)) (dp_end_x particle)
                    dramatic_duration;
         y_expr = EaseOut (real_of_int (dp_start_y particle)) (dp_end_y particle)
                    dramatic_duration;
         alpha_expr = FadeOut dramatic_duration;
         input_name = (if i = 0 then Bg else Tmp (i - 1))
     in [ColorSrc (dp_color particle) (dp_size particle) (dp_size particle)
           dramatic_duration fps (P i),
         Overlay input_name (P i) x_expr y_expr (Some alpha_expr) False (Tmp i)])"

record 'g dramatic_graph =
  dg_particles :: "dramatic_particle list"
  dg_filters :: "filter list"
  dg_final :: label
  dg_rng :: 'g

definition dramatic_simulate :: "'g prng \<Rightarrow> string \<Rightarrow> 'g \<Rightarrow> 'g dramatic_graph" where
  "dramatic_simulate R rarity g =
    (let cfg = dramatic_rarity_settings rarity
     in case fold (dramatic_step R cfg) [0..<d_particle_count cfg] (g, []) of
          (g1, particles) \<Rightarrow>
     let filters = [ColorSrc (d_bg_color cfg) width height dramatic_duration fps Bg] @
                   concat (map dramatic_particle_filters (enumerate 0 particles));
         final_output = (if particles \<noteq> [] then Tmp (length particles - 1) else Bg)
     in \<lparr>dg_particles = particles, dg_filters = filters, dg_final = final_output,
         dg_rng = g1\<rparr>)"

subsection \<open>Notions used in the statements\<close>

text \<open>
  The generator state after one draw, and the value of the \<open>k\<close>-th draw from a state
  (counting from 0).
\<close>

definition advance :: "'g prng \<Rightarrow> 'g \<Rightarrow> 'g" where
  "advance R g = snd (rng_random R g)"

definition draw :: "'g prng \<Rightarrow> 'g \<Rightarrow> nat \<Rightarrow> real" where
  "draw R g k = fst (rng_random R ((advance R ^^ k) g))"

text \<open>The particle of iteration \<open>i\<close> when the loop starts in state \<open>g0\<close>.\<close>

definition particle_at :: "'g prng \<Rightarrow> string list \<Rightarrow> 'g \<Rightarrow> nat \<Rightarrow> particle" where
  "particle_at R colors g0 i = fst (draw_particle R colors i ((advance R ^^ (3 * i)) g0))"

text \<open>
  The counts the loops run to: \<^verbatim>\<open>particle_count\<close>, and \<^verbatim>\<open>ray_count\<close> when
  \<^verbatim>\<open>'burst_rays' in effects\<close> (no ray loop otherwise); and \<^verbatim>\<open>final_layer\<close> as it
  stands between the two loops.
\<close>

definition particle_total :: "string \<Rightarrow> nat" where
  "particle_total rarity = particle_count (rarity_settings rarity)"

definition ray_total :: "string \<Rightarrow> nat" where
  "ray_total rarity =
    (if ''burst_rays'' \<in> set (effects (rarity_settings rarity)) then ray_count_of rarity else 0)"

definition last_particle_layer :: "string \<Rightarrow> label" where
  "last_particle_layer rarity =
    (if particle_total rarity > 0 then Tmp (particle_total rarity - 1) else Bg)"

text \<open>The source's test of the encoder's outcome: \<^verbatim>\<open>result.returncode == 0\<close>.\<close>

fun succeeded :: "run_result \<Rightarrow> bool" where
  "succeeded (Completed returncode err) = (returncode = 0)"
| "succeeded TimeoutExpired = False"
| "succeeded FileNotFoundError = False"


text \<open>The opacity expression a filter hands to the encoder, if any.\<close>

fun opacity_of :: "filter \<Rightarrow> expr option" where
  "opacity_of (ColorSrc c w h d r out) = None"
| "opacity_of (Overlay base ov x y a f out) = a"

text \<open>The line the source prints for an outcome of \<^verbatim>\<open>subprocess.run\<close>.\<close>

definition outcome_message :: "string \<Rightarrow> string \<Rightarrow> run_result \<Rightarrow> message" where
  "outcome_message rarity path res =
     (case res of
        Completed returncode err \<Rightarrow> if returncode = 0 then Created path else FFmpegError err
      | TimeoutExpired \<Rightarrow> TimeoutMsg rarity
      | FileNotFoundError \<Rightarrow> FFmpegNotFound)"

text \<open>The encoder invocations a run added to the world's log.\<close>

definition new_calls :: "'g world \<Rightarrow> 'g world \<Rightarrow> ffmpeg_cmd list" where
  "new_calls w w' = drop (length (run_calls w)) (run_calls w')"

text \<open>
  A graph is read in order: every input label of a filter must have been written as the
  output label of an earlier filter (\<open>seen\<close> holds the labels written so far).
\<close>

fun declared_before_use :: "label set \<Rightarrow> filter list \<Rightarrow> bool" where
  "declared_before_use seen [] = True"
| "declared_before_use seen (f # fs) =
     (set (inputs f) \<subseteq> seen \<and> declared_before_use (insert (out_label f) seen) fs)"

text \<open>
  A small generator, an encoder that accepts every command, one that rejects every
  command, and a starting world: the concrete inputs of the closed theorems below.
\<close>

definition toy_rng :: "nat prng" where
  "toy_rng = \<lparr>rng_seed = (\<lambda>n g. nat \<bar>n\<bar>),
              rng_random = (\<lambda>g. (real (g mod 8) / 8, Suc g)),
              rng_randint = (\<lambda>a b g. (a + int g mod (b - a + 1), Suc g))\<rparr>"

definition enc_ok :: "ffmpeg_cmd \<Rightarrow> run_result" where
  "enc_ok cmd = Completed 0 []"

definition enc_fail :: "ffmpeg_cmd \<Rightarrow> run_result" where
  "enc_fail cmd = Completed 1 ''Invalid argument''"

definition world0 :: "nat world" where
  "world0 = \<lparr>rng_state = 7, printed = [], run_calls = []\<rparr>"

section \<open>Properties\<close>

subsection \<open>The loops in closed form\<close>

lemma draw_particle_rng:
  "snd (draw_particle R colors i g) = (advance R ^^ 3) g"
  by (simp add: draw_particle_def uniform_def advance_def Let_def numeral_3_eq_3
      split: prod.splits)

lemma draw_particle_fields:
  "fst (draw_particle R colors i g) =
     \<lparr>p_index = i, p_angle = 2 * pi * draw R g 0, p_velocity = draw R g 1,
      p_end_x = real_of_int center_x + cos (2 * pi * draw R g 0) * (432 * draw R g 1),
      p_end_y = real_of_int center_y + sin (2 * pi * draw R g 0) * (432 * draw R g 1),
      p_size = binary64 (2 + binary64 (3 * draw R g 2)), p_color = colors ! (i mod length colors)\<rparr>"
  by (simp add: draw_particle_def uniform_def advance_def draw_def Let_def numeral_2_eq_2
      split: prod.splits)

lemma particle_step_eq:
  "particle_step R colors i (g, ps, fs) =
     ((advance R ^^ 3) g, ps @ [fst (draw_particle R colors i g)],
      fs @ particle_filters (fst (draw_particle R colors i g)))"
  by (simp add: particle_step_def case_prod_beta draw_particle_rng)

lemma fold_particle_step:
  "fold (particle_step R colors) [0..<n] (g, ps, fs) =
     ((advance R ^^ (3 * n)) g,
      ps @ map (particle_at R colors g) [0..<n],
      fs @ concat (map (\<lambda>i. particle_filters (particle_at R colors g i)) [0..<n]))"
proof (induction n)
  case 0
  show ?case by simp
next
  case (Suc n)
  have "(advance R ^^ (3 * Suc n)) g = (advance R ^^ (3 + 3 * n)) g"
    by simp
  also have "\<dots> = (advance R ^^ 3) ((advance R ^^ (3 * n)) g)"
    by (simp only: funpow_add o_apply)
  finally have "(advance R ^^ 3) ((advance R ^^ (3 * n)) g) = (advance R ^^ (3 * Suc n)) g"
    by simp
  then show ?case
    using Suc by (simp add: particle_step_eq particle_at_def)
qed

lemma fold_ray_step:
  "fold (ray_step m) [0..<k] (l, rs, fs) =
     (if k = 0 then l else RayTmp (k - 1),
      rs @ map (make_ray m) [0..<k],
      fs @ concat (map (\<lambda>i. ray_filters (if i = 0 then l else RayTmp (i - 1)) (make_ray m i))
                     [0..<k]))"
  by (induction k) (simp_all add: ray_step_def Let_def)

lemma sim_particles_eq:
  "sim_particles (simulate R rarity g) =
     map (particle_at R (particle_colors (rarity_settings rarity)) (rng_seed R 42 g))
       [0..<particle_total rarity]"
  by (simp add: simulate_def Let_def fold_particle_step fold_ray_step particle_total_def)

lemma sim_rays_eq:
  "sim_rays (simulate R rarity g) = map (make_ray (ray_count_of rarity)) [0..<ray_total rarity]"
  by (simp add: simulate_def Let_def fold_particle_step fold_ray_step ray_total_def)

lemma sim_rng_eq:
  "sim_rng (simulate R rarity g) = (advance R ^^ (3 * particle_total rarity)) (rng_seed R 42 g)"
  by (simp add: simulate_def Let_def fold_particle_step fold_ray_step particle_total_def)

lemma sim_final_eq:
  "sim_final (simulate R rarity g) =
     (if ray_total rarity = 0 then last_particle_layer rarity else RayTmp (ray_total rarity - 1))"
  by (simp add: simulate_def Let_def fold_particle_step fold_ray_step particle_total_def
      ray_total_def last_particle_layer_def)

lemma sim_filters_eq:
  "sim_filters (simulate R rarity g) =
     ColorSrc ''black@0.0'' width height duration fps Bg #
     concat (map (\<lambda>i. particle_filters
                  (particle_at R (particle_colors (rarity_settings rarity)) (rng_seed R 42 g) i))
               [0..<particle_total rarity]) @
     concat (map (\<lambda>i. ray_filters (if i = 0 then last_particle_layer rarity else RayTmp (i - 1))
                  (make_ray (ray_count_of rarity) i))
               [0..<ray_total rarity])"
  unfolding last_particle_layer_def particle_total_def ray_total_def
  by (simp add: simulate_def Let_def fold_particle_step fold_ray_step)

lemma totals:
  "particle_total ''common'' = 30" "particle_total ''uncommon'' = 60"
  "particle_total ''rare'' = 100"
  "ray_total ''common'' = 0" "ray_total ''uncommon'' = 32" "ray_total ''rare'' = 48"
  by (simp_all add: particle_total_def ray_total_def rarity_settings_def ray_count_of_def)

lemma toy_seed_resets: "\<forall>n g g'. rng_seed toy_rng n g = rng_seed toy_rng n g'"
  by (simp add: toy_rng_def)

subsection \<open>Determinism of the seeded simulation\<close>

text \<open>
  Claim C1. Two runs of the simulation of \<^verbatim>\<open>create_celebration_video\<close> that start from
  any two states \<open>g1\<close>, \<open>g2\<close> of the process-global generator produce the same ordered
  particles (angle, velocity, end position, size, colour), the same burst rays and the
  same filter graph, for every rarity: the function calls \<^verbatim>\<open>random.seed(42)\<close> before the
  first draw. The fact of the library it rests on is the hypothesis: the state after
  seeding is determined by the seed.
\<close>

theorem seeded_runs_agree:
  assumes "\<forall>n g g'. rng_seed R n g = rng_seed R n g'"
  shows "sim_particles (simulate R rarity g1) = sim_particles (simulate R rarity g2) \<and>
         sim_rays (simulate R rarity g1) = sim_rays (simulate R rarity g2) \<and>
         simulate R rarity g1 = simulate R rarity g2"
proof -
  have "rng_seed R 42 g1 = rng_seed R 42 g2"
    using assms by blast
  then show ?thesis
    by (simp add: simulate_def)
qed

theorem seeded_runs_agree_witness:
  "(\<forall>n g g'. rng_seed toy_rng n g = rng_seed toy_rng n g') \<and>
   sim_particles (simulate toy_rng ''rare'' 0) = sim_particles (simulate toy_rng ''rare'' 5) \<and>
   sim_rays (simulate toy_rng ''rare'' 0) = sim_rays (simulate toy_rng ''rare'' 5) \<and>
   simulate toy_rng ''rare'' 0 = simulate toy_rng ''rare'' 5"
  using toy_seed_resets seeded_runs_agree [OF toy_seed_resets, of "''rare''" 0 5] by blast

subsection \<open>Counts\<close>


subsection \<open>What a particle is made of\<close>

lemma draw_shift: "draw R ((advance R ^^ j) g) k = draw R g (j + k)"
  by (simp only: draw_def add.commute [of j k] funpow_add o_apply)

lemma particle_at_fields:
  "particle_at R colors g i =
     \<lparr>p_index = i, p_angle = 2 * pi * draw R g (3 * i), p_velocity = draw R g (3 * i + 1),
      p_end_x = real_of_int center_x +
                cos (2 * pi * draw R g (3 * i)) * (432 * draw R g (3 * i + 1)),
      p_end_y = real_of_int center_y +
                sin (2 * pi * draw R g (3 * i)) * (432 * draw R g (3 * i + 1)),
      p_size = binary64 (2 + binary64 (3 * draw R g (3 * i + 2))),
      p_color = colors ! (i mod length colors)\<rparr>"
  by (simp add: particle_at_def draw_particle_fields draw_shift)

text \<open>
  Claim C9. Particle \<open>i\<close> has the colour \<^verbatim>\<open>particle_colors[i % len(particle_colors)]\<close>,
  and choosing it consumes no draw: the draws after seeding are numbered from 0, particle
  \<open>i\<close> takes its angle from draw \<open>3 i\<close>, its velocity from draw \<open>3 i + 1\<close> and its size
  from draw \<open>3 i + 2\<close>, and the generator ends in the state after \<open>3 * particle_count\<close>
  draws.
\<close>

theorem color_cycling:
  "map p_color (sim_particles (simulate R rarity g)) =
     map (\<lambda>i. particle_colors (rarity_settings rarity)
                 ! (i mod length (particle_colors (rarity_settings rarity))))
       [0..<particle_count (rarity_settings rarity)] \<and>
   map p_index (sim_particles (simulate R rarity g)) =
     [0..<particle_count (rarity_settings rarity)] \<and>
   map p_angle (sim_particles (simulate R rarity g)) =
     map (\<lambda>i. 2 * pi * draw R (rng_seed R 42 g) (3 * i))
       [0..<particle_count (rarity_settings rarity)] \<and>
   map p_velocity (sim_particles (simulate R rarity g)) =
     map (\<lambda>i. draw R (rng_seed R 42 g) (3 * i + 1))
       [0..<particle_count (rarity_settings rarity)] \<and>
   map p_size (sim_particles (simulate R rarity g)) =
     map (\<lambda>i. binary64 (2 + binary64 (3 * draw R (rng_seed R 42 g) (3 * i + 2))))
       [0..<particle_count (rarity_settings rarity)] \<and>
   sim_rng (simulate R rarity g) =
     (advance R ^^ (3 * particle_count (rarity_settings rarity))) (rng_seed R 42 g)"
  by (simp add: sim_particles_eq sim_rng_eq particle_total_def particle_at_fields comp_def
      map_idI)

text \<open>
  Claim C2. The end position of every particle is
  \<open>(width / 2, height / 3 - 2 / 3) + radius * (cos angle, sin angle)\<close> with
  \<open>radius = 0.6 * min width height * velocity\<close>: the horizontal coordinate is the one the
  claim gives, the vertical one is 2/3 of a pixel above it, since \<^verbatim>\<open>center_y\<close> is
  \<^verbatim>\<open>height // 3\<close>, which is 426, and not \<open>height / 3\<close>.
\<close>

theorem end_position_center_is_floored:
  "map p_end_x (sim_particles (simulate R rarity g)) =
     map (\<lambda>p. real_of_int width / 2 +
               (0.6 * real_of_int (min width height) * p_velocity p) * cos (p_angle p))
       (sim_particles (simulate R rarity g)) \<and>
   map p_end_y (sim_particles (simulate R rarity g)) =
     map (\<lambda>p. real_of_int height / 3 - 2 / 3 +
               (0.6 * real_of_int (min width height) * p_velocity p) * sin (p_angle p))
       (sim_particles (simulate R rarity g))"
  by (simp add: sim_particles_eq particle_at_fields center_x_def center_y_def width_def
      height_def)

subsection \<open>Opacity of the single filters\<close>

lemma opacity_particle_filters: "map opacity_of (filter is_overlay (particle_filters p)) = [None]"
  by (simp add: particle_filters_def Let_def)

lemma opacity_ray_filters: "map opacity_of (filter is_overlay (ray_filters l r)) = [None]"
  by (simp add: ray_filters_def Let_def)

subsection \<open>Rounding to a double\<close>





lemma exponent_eq:
  assumes "2 powr of_int e \<le> x" "x < 2 powr of_int (e + 1)"
  shows "\<lfloor>log 2 x\<rfloor> = e"
proof -
  have "0 < 2 powr real_of_int e" by simp
  with assms(1) have x: "0 < x" by linarith
  then have "of_int e \<le> log 2 x" "log 2 x < of_int (e + 1)"
    using assms by (simp_all add: le_log_iff log_less_iff del: of_int_add)
  then show ?thesis
    by linarith
qed

lemma binary64_pos:
  assumes "0 < x"
  shows "binary64 x =
    of_int (round_half_even (x / 2 powr of_int (\<lfloor>log 2 x\<rfloor> - 52))) *
      2 powr of_int (\<lfloor>log 2 x\<rfloor> - 52)"
  using assms by (simp add: binary64_def Let_def)






lemma binary64_binade_1:
  assumes "2 \<le> x" "x < 4"
  shows "binary64 x = of_int (round_half_even (x * 2 ^ 51)) / 2 ^ 51"
proof -
  have "\<lfloor>log 2 x\<rfloor> = 1"
    using assms by (intro exponent_eq) simp_all
  moreover have "0 < x" using assms by simp
  ultimately show ?thesis
    by (simp add: binary64_pos powr_minus divide_simps)
qed

lemma binary64_binade_2:
  assumes "4 \<le> x" "x < 8"
  shows "binary64 x = of_int (round_half_even (x * 2 ^ 50)) / 2 ^ 50"
proof -
  have "\<lfloor>log 2 x\<rfloor> = 2"
    using assms by (intro exponent_eq) simp_all
  moreover have "0 < x" using assms by simp
  ultimately show ?thesis
    by (simp add: binary64_pos powr_minus divide_simps)
qed




lemma largest_draw_product: "binary64 (3 * (1 - 1 / 2 ^ 53)) = 3 - 1 / 2 ^ 51"
proof -
  let ?x = "3 * (1 - 1 / 2 ^ 53) :: real"
  have x: "2 \<le> ?x" "?x < 4"
    by simp_all
  have "?x * 2 ^ 51 = 27021597764222973 / 4"
    by simp
  moreover have "round_half_even (27021597764222973 / 4) = 6755399441055743"
    by (simp add: round_half_even_def Let_def)
  ultimately show ?thesis
    unfolding binary64_binade_1 [OF x] by simp
qed

lemma largest_draw_size: "binary64 (2 + binary64 (3 * (1 - 1 / 2 ^ 53))) = 5"
proof -
  let ?y = "2 + (3 - 1 / 2 ^ 51) :: real"
  have y: "4 \<le> ?y" "?y < 8"
    by simp_all
  have "?y * 2 ^ 50 = 11258999068426239 / 2"
    by simp
  moreover have "round_half_even (11258999068426239 / 2) = 5629499534213120"
    by (simp add: round_half_even_def Let_def)
  ultimately show ?thesis
    unfolding largest_draw_product binary64_binade_2 [OF y] by simp
qed


subsection \<open>Rendered particle sizes\<close>



lemma largest_draw_side:
  assumes "draw R g (3 * i + 2) = 1 - 1 / 2 ^ 53"
  shows "int_py (p_size (particle_at R colors g i)) = 5"
proof -
  have "p_size (particle_at R colors g i) =
      binary64 (2 + binary64 (3 * draw R g (3 * i + 2)))"
    by (simp add: particle_at_fields)
  also have "\<dots> = 5"
    unfolding assms by (rule largest_draw_size)
  finally show ?thesis
    by (simp add: int_py_def)
qed







subsection \<open>The shape of the compiled graph\<close>

lemma particle_total_pos: "0 < particle_total rarity"
  by (simp add: particle_total_def rarity_settings_def)

lemma overlays_eq:
  "filter is_overlay (sim_filters (simulate R rarity g)) =
     map (\<lambda>i. Overlay (if i = 0 then Bg else Tmp (i - 1)) (P i)
            (Linear (real_of_int center_x)
               (p_end_x (particle_at R (particle_colors (rarity_settings rarity)) (rng_seed R 42 g) i)) duration)
            (Linear (real_of_int center_y)
               (p_end_y (particle_at R (particle_colors (rarity_settings rarity)) (rng_seed R 42 g) i)) duration)
            None True (Tmp i)) [0..<particle_total rarity] @
     map (\<lambda>i. Overlay (if i = 0 then last_particle_layer rarity else RayTmp (i - 1)) (Ray i)
            (Linear (real_of_int center_x) (r_end_x (make_ray (ray_count_of rarity) i)) duration)
            (Linear (real_of_int center_y) (r_end_y (make_ray (ray_count_of rarity) i)) duration)
            None True (RayTmp i)) [0..<ray_total rarity]"
  by (simp add: sim_filters_eq filter_concat comp_def particle_filters_def ray_filters_def
      Let_def particle_at_fields make_ray_def concat_map_singleton)

lemma out_labels_eq:
  "map out_label (sim_filters (simulate R rarity g)) =
     Bg # concat (map (\<lambda>i. [P i, Tmp i]) [0..<particle_total rarity]) @
          concat (map (\<lambda>i. [Ray i, RayTmp i]) [0..<ray_total rarity])"
  by (simp add: sim_filters_eq map_concat comp_def particle_filters_def ray_filters_def
      Let_def particle_at_fields make_ray_def)

lemma concat_map_concat_map:
  "concat (map f (concat (map h xs))) = concat (map (\<lambda>x. concat (map f (h x))) xs)"
  by (induction xs) simp_all

lemma inputs_eq:
  "concat (map inputs (sim_filters (simulate R rarity g))) =
     concat (map (\<lambda>i. [if i = 0 then Bg else Tmp (i - 1), P i]) [0..<particle_total rarity]) @
     concat (map (\<lambda>i. [if i = 0 then last_particle_layer rarity else RayTmp (i - 1), Ray i])
               [0..<ray_total rarity])"
  by (simp add: sim_filters_eq concat_map_concat_map particle_filters_def ray_filters_def
      Let_def particle_at_fields make_ray_def)

lemma count_particle_inputs:
  "count_list (concat (map (\<lambda>i. [if i = 0 then Bg else Tmp (i - 1), P i]) [0..<n])) l =
     (case l of Bg \<Rightarrow> if 0 < n then 1 else 0
              | P k \<Rightarrow> if k < n then 1 else 0
              | Tmp k \<Rightarrow> if Suc k < n then 1 else 0
              | Ray k \<Rightarrow> 0
              | RayTmp k \<Rightarrow> 0)"
  by (induction n) (auto split: label.splits)

lemma count_ray_inputs:
  "count_list (concat (map (\<lambda>i. [if i = 0 then l0 else RayTmp (i - 1), Ray i]) [0..<m])) l =
     (if 0 < m \<and> l = l0 then 1 else 0) +
     (case l of Bg \<Rightarrow> 0
              | P k \<Rightarrow> 0
              | Tmp k \<Rightarrow> 0
              | Ray k \<Rightarrow> if k < m then 1 else 0
              | RayTmp k \<Rightarrow> if Suc k < m then 1 else 0)"
  by (induction m) (auto split: label.splits)

lemma each_layer_used_once:
  assumes "l \<in> set (map out_label (sim_filters (simulate R rarity g)))"
  shows "count_list (concat (map inputs (sim_filters (simulate R rarity g)))) l =
           (if l = sim_final (simulate R rarity g) then 0 else 1)"
proof -
  have n: "0 < particle_total rarity"
    by (rule particle_total_pos)
  from assms have "l = Bg \<or> (\<exists>k < particle_total rarity. l = P k \<or> l = Tmp k) \<or>
      (\<exists>k < ray_total rarity. l = Ray k \<or> l = RayTmp k)"
    by (auto simp: out_labels_eq)
  then show ?thesis
    using n
    by (auto simp: inputs_eq count_particle_inputs count_ray_inputs sim_final_eq
        last_particle_layer_def split: if_splits)
qed

lemma distinct_particle_labels: "distinct (concat (map (\<lambda>i. [P i, Tmp i]) [0..<n]))"
  by (induction n) auto

lemma distinct_ray_labels: "distinct (concat (map (\<lambda>i. [Ray i, RayTmp i]) [0..<m]))"
  by (induction m) auto

lemma distinct_out_labels: "distinct (map out_label (sim_filters (simulate R rarity g)))"
  by (auto simp: out_labels_eq distinct_particle_labels distinct_ray_labels)

lemma declared_before_use_append:
  "declared_before_use S (xs @ ys) =
     (declared_before_use S xs \<and> declared_before_use (S \<union> set (map out_label xs)) ys)"
  by (induction xs arbitrary: S) (simp_all add: Un_commute insert_commute)

lemma declared_before_use_nth:
  "declared_before_use S fs \<Longrightarrow> j < length fs \<Longrightarrow>
     set (inputs (fs ! j)) \<subseteq> S \<union> set (map out_label (take j fs))"
proof (induction fs arbitrary: S j)
  case Nil
  then show ?case by simp
next
  case (Cons f fs)
  show ?case
  proof (cases j)
    case 0
    with Cons.prems show ?thesis by simp
  next
    case (Suc k)
    with Cons.prems have "set (inputs (fs ! k)) \<subseteq> insert (out_label f) S \<union> set (map out_label (take k fs))"
      using Cons.IH [of "insert (out_label f) S" k] by simp
    with Suc show ?thesis by auto
  qed
qed

lemma particle_layers_declared:
  "Bg \<in> S \<Longrightarrow>
     declared_before_use S (concat (map (\<lambda>i. particle_filters (particle_at R c g i)) [0..<n])) \<and>
     set (map out_label (concat (map (\<lambda>i. particle_filters (particle_at R c g i)) [0..<n]))) =
       P ` {..<n} \<union> Tmp ` {..<n}"
proof (induction n)
  case 0
  show ?case by simp
next
  case (Suc n)
  then show ?case
    by (auto simp: declared_before_use_append particle_filters_def Let_def particle_at_fields
        lessThan_Suc)
qed

lemma ray_layers_declared:
  "l \<in> S \<Longrightarrow>
     declared_before_use S
       (concat (map (\<lambda>i. ray_filters (if i = 0 then l else RayTmp (i - 1)) (make_ray m i)) [0..<k])) \<and>
     set (map out_label
       (concat (map (\<lambda>i. ray_filters (if i = 0 then l else RayTmp (i - 1)) (make_ray m i)) [0..<k]))) =
       Ray ` {..<k} \<union> RayTmp ` {..<k}"
proof (induction k)
  case 0
  show ?case by simp
next
  case (Suc k)
  then show ?case
    by (auto simp: declared_before_use_append ray_filters_def Let_def make_ray_def lessThan_Suc)
qed

lemma sim_filters_declared: "declared_before_use {} (sim_filters (simulate R rarity g))"
proof -
  let ?ps = "concat (map (\<lambda>i. particle_filters
                (particle_at R (particle_colors (rarity_settings rarity)) (rng_seed R 42 g) i))
              [0..<particle_total rarity])"
  let ?rs = "concat (map (\<lambda>i. ray_filters
                (if i = 0 then last_particle_layer rarity else RayTmp (i - 1))
                (make_ray (ray_count_of rarity) i)) [0..<ray_total rarity])"
  let ?S = "{Bg} \<union> set (map out_label ?ps)"
  have ps: "declared_before_use {Bg} ?ps"
    by (rule particle_layers_declared [of "{Bg}", THEN conjunct1]) simp
  have labels: "set (map out_label ?ps) =
      P ` {..<particle_total rarity} \<union> Tmp ` {..<particle_total rarity}"
    by (rule particle_layers_declared [of "{Bg}", THEN conjunct2]) simp
  have "last_particle_layer rarity \<in> ?S"
    unfolding labels using particle_total_pos [of rarity]
    by (simp add: last_particle_layer_def)
  then have rs: "declared_before_use ?S ?rs"
    by (rule ray_layers_declared [THEN conjunct1])
  have "declared_before_use {Bg} (?ps @ ?rs)"
    using ps rs by (simp only: declared_before_use_append simp_thms)
  then show ?thesis
    by (simp add: sim_filters_eq)
qed

lemma shifted_range:
  "map (\<lambda>i. if i = 0 then a else f (i - 1)) [0..<k] = butlast (a # map f [0..<k])"
  by (rule nth_equalityI) (auto simp: nth_butlast nth_Cons')

lemma butlast_join: "xs \<noteq> [] \<Longrightarrow> butlast xs @ butlast (last xs # ys) = butlast (xs @ ys)"
  by (cases ys) (simp_all add: butlast_append)

lemma overlay_chain:
  "map base_in (filter is_overlay (sim_filters (simulate R rarity g))) =
     Bg # butlast (map out_label (filter is_overlay (sim_filters (simulate R rarity g))))"
proof -
  let ?n = "particle_total rarity" and ?m = "ray_total rarity"
  have n: "0 < ?n" by (rule particle_total_pos)
  then have l: "last (Bg # map Tmp [0..<?n]) = last_particle_layer rarity"
    by (simp add: last_particle_layer_def last_map)
  have "map base_in (filter is_overlay (sim_filters (simulate R rarity g))) =
      butlast (Bg # map Tmp [0..<?n]) @ butlast (last_particle_layer rarity # map RayTmp [0..<?m])"
    by (simp add: overlays_eq comp_def shifted_range [symmetric] del: butlast.simps)
  also have "\<dots> = butlast ((Bg # map Tmp [0..<?n]) @ map RayTmp [0..<?m])"
    unfolding l [symmetric] by (rule butlast_join) simp
  also have "\<dots> = Bg # butlast (map Tmp [0..<?n] @ map RayTmp [0..<?m])"
    using n by simp
  finally show ?thesis
    by (simp add: overlays_eq comp_def)
qed

lemma overlay_tops:
  "map top_in (filter is_overlay (sim_filters (simulate R rarity g))) =
     map P [0..<particle_total rarity] @ map Ray [0..<ray_total rarity]"
  by (simp add: overlays_eq comp_def)

lemma final_is_last_overlay:
  "sim_final (simulate R rarity g) =
     last (map out_label (filter is_overlay (sim_filters (simulate R rarity g))))"
  using particle_total_pos [of rarity]
  by (simp add: overlays_eq comp_def sim_final_eq last_particle_layer_def last_map last_append)

subsection \<open>What an overlay carries\<close>

text \<open>
  Claim C6. The graph has one overlay per particle and per ray, in this order. Each
  carries the position expressions \<^verbatim>\<open>"{center}+({end}-{center})*t/{duration}"\<close>, linear
  in time from the centre to the end position of its particle or ray. None of them
  carries an opacity expression: the source computes \<^verbatim>\<open>alpha_expr\<close> for a particle and
  leaves it out of the overlay string, and computes none for a ray.
\<close>

theorem overlays_carry_no_opacity:
  "map opacity_of (filter is_overlay (sim_filters (simulate R rarity g))) =
     replicate (particle_total rarity + ray_total rarity) None \<and>
   map x_expr (filter is_overlay (sim_filters (simulate R rarity g))) =
     map (\<lambda>p. Linear (real_of_int center_x) (p_end_x p) duration)
       (sim_particles (simulate R rarity g)) @
     map (\<lambda>r. Linear (real_of_int center_x) (r_end_x r) duration)
       (sim_rays (simulate R rarity g)) \<and>
   map y_expr (filter is_overlay (sim_filters (simulate R rarity g))) =
     map (\<lambda>p. Linear (real_of_int center_y) (p_end_y p) duration)
       (sim_particles (simulate R rarity g)) @
     map (\<lambda>r. Linear (real_of_int center_y) (r_end_y r) duration)
       (sim_rays (simulate R rarity g))"
proof -
  have "map opacity_of (filter is_overlay (sim_filters (simulate R rarity g))) =
      replicate (particle_total rarity + ray_total rarity) None"
    by (simp add: sim_filters_eq filter_concat map_concat comp_def opacity_particle_filters
        opacity_ray_filters map_replicate_const replicate_add)
  then show ?thesis
    by (simp add: overlays_eq sim_particles_eq sim_rays_eq comp_def)
qed

subsection \<open>Labels as text\<close>

lemma digit_inj: "m < 10 \<Longrightarrow> n < 10 \<Longrightarrow> digits ! m = digits ! n \<Longrightarrow> m = n"
proof -
  assume a: "m < 10" "n < 10" "digits ! m = digits ! n"
  have "distinct digits" "length digits = 10"
    by (simp_all add: digits_def)
  with a show ?thesis
    by (simp add: nth_eq_iff_index_eq)
qed

lemma digit_mem: "n < 10 \<Longrightarrow> digits ! n \<in> set digits"
  by (rule nth_mem) (simp add: digits_def)

lemma str_nat_nonempty: "str_nat n \<noteq> []"
  by (subst str_nat.simps) simp

lemma str_nat_digits: "set (str_nat n) \<subseteq> set digits"
proof (induction n rule: str_nat.induct)
  case (1 n)
  show ?case
  proof (cases "n < 10")
    case True
    then show ?thesis
      by (subst str_nat.simps) (simp add: digit_mem)
  next
    case False
    then show ?thesis
      using 1 by (subst str_nat.simps) (simp add: digit_mem)
  qed
qed

lemma str_nat_inj: "str_nat m = str_nat n \<Longrightarrow> m = n"
proof (induction m arbitrary: n rule: str_nat.induct)
  case (1 m)
  show ?case
  proof (cases "m < 10")
    case m: True
    show ?thesis
    proof (cases "n < 10")
      case True
      with m "1.prems" show ?thesis
        by (simp add: str_nat.simps [of m] str_nat.simps [of n] digit_inj)
    next
      case False
      with m "1.prems" str_nat_nonempty [of "n div 10"] show ?thesis
        by (simp add: str_nat.simps [of m] str_nat.simps [of n] Cons_eq_append_conv)
    qed
  next
    case m: False
    show ?thesis
    proof (cases "n < 10")
      case True
      with m "1.prems" str_nat_nonempty [of "m div 10"] show ?thesis
        by (simp add: str_nat.simps [of m] str_nat.simps [of n] append_eq_Cons_conv)
    next
      case False
      with m "1.prems" have eq: "str_nat (m div 10) = str_nat (n div 10)"
          "digits ! (m mod 10) = digits ! (n mod 10)"
        by (simp_all add: str_nat.simps [of m] str_nat.simps [of n])
      from "1.IH" [OF m eq(1)] have "m div 10 = n div 10" .
      moreover from eq(2) have "m mod 10 = n mod 10"
        by (intro digit_inj) simp_all
      ultimately show ?thesis
        by (metis div_mult_mod_eq)
    qed
  qed
qed

lemma str_nat_no_underscore: "str_nat i \<noteq> CHR ''_'' # s"
proof
  assume "str_nat i = CHR ''_'' # s"
  then have "CHR ''_'' \<in> set (str_nat i)"
    by simp
  with str_nat_digits [of i] show False
    by (auto simp: digits_def)
qed

lemma label_name_inj: "label_name a = label_name b \<Longrightarrow> a = b"
  by (cases a; cases b) (auto dest: str_nat_inj simp: str_nat_no_underscore
      str_nat_no_underscore [symmetric])

lemma label_names_distinct:
  "distinct (map (label_name \<circ> out_label) (sim_filters (simulate R rarity g)))"
proof -
  have "inj_on label_name (set (map out_label (sim_filters (simulate R rarity g))))"
    by (rule inj_onI) (rule label_name_inj)
  then have "distinct (map label_name (map out_label (sim_filters (simulate R rarity g))))"
    using distinct_out_labels by (simp only: distinct_map simp_thms)
  then show ?thesis
    by simp
qed

subsection \<open>The graph is one chain\<close>

text \<open>
  Claim C7. The graph declares its layers in generation order: the background, then for
  each particle \<open>0 .. particle_count - 1\<close> its square and the result of overlaying it,
  then the same for each ray \<open>0 .. ray_count - 1\<close>. The overlays take the particles and
  then the rays in that order, each on top of the result of the overlay before it (the
  first on the background), and the result of the last overlay is the label mapped to the
  encoder. No label is declared twice (as a label and as its text), every declared label
  but the mapped one is an input
  exactly once in the whole graph, the mapped one never, and every input of a filter is
  declared by an earlier filter.
\<close>

theorem composition_graph_is_linear_chain:
  "(let fs = sim_filters (simulate R rarity g);
        ovs = filter is_overlay fs;
        fin = sim_final (simulate R rarity g)
    in map out_label fs =
         Bg # concat (map (\<lambda>i. [P i, Tmp i]) [0..<particle_total rarity]) @
              concat (map (\<lambda>i. [Ray i, RayTmp i]) [0..<ray_total rarity]) \<and>
       map top_in ovs = map P [0..<particle_total rarity] @ map Ray [0..<ray_total rarity] \<and>
       map base_in ovs = Bg # butlast (map out_label ovs) \<and>
       fin = last (map out_label ovs) \<and>
       map_label (build_cmd (simulate R rarity g) path) = fin \<and>
       filter_complex (build_cmd (simulate R rarity g) path) = fs \<and>
       distinct (map out_label fs) \<and>
       distinct (map (label_name \<circ> out_label) fs) \<and>
       (\<forall>l \<in> set (map out_label fs).
          count_list (concat (map inputs fs)) l = (if l = fin then 0 else 1)) \<and>
       (\<forall>j < length fs. set (inputs (fs ! j)) \<subseteq> set (map out_label (take j fs))))"
proof -
  have used: "\<forall>l \<in> set (map out_label (sim_filters (simulate R rarity g))).
      count_list (concat (map inputs (sim_filters (simulate R rarity g)))) l =
        (if l = sim_final (simulate R rarity g) then 0 else 1)"
    by (intro ballI each_layer_used_once)
  have before: "\<forall>j < length (sim_filters (simulate R rarity g)).
      set (inputs (sim_filters (simulate R rarity g) ! j))
        \<subseteq> set (map out_label (take j (sim_filters (simulate R rarity g))))"
  proof (intro allI impI)
    fix j
    assume "j < length (sim_filters (simulate R rarity g))"
    from declared_before_use_nth [OF sim_filters_declared this]
    show "set (inputs (sim_filters (simulate R rarity g) ! j))
        \<subseteq> set (map out_label (take j (sim_filters (simulate R rarity g))))"
      by simp
  qed
  show ?thesis
    unfolding Let_def
    by (intro conjI out_labels_eq overlay_tops overlay_chain final_is_last_overlay
        distinct_out_labels label_names_distinct used before) (simp_all add: build_cmd_def)
qed

lemma sim_filters_length:
  "length (sim_filters (simulate R rarity g)) =
     1 + 2 * particle_total rarity + 2 * ray_total rarity"
proof -
  have "length (map out_label (sim_filters (simulate R rarity g))) =
      1 + 2 * particle_total rarity + 2 * ray_total rarity"
    unfolding out_labels_eq by (simp add: length_concat comp_def sum_list_triv)
  then show ?thesis by simp
qed

theorem composition_graph_is_linear_chain_witness:
  "Tmp 59 \<in> set (map out_label (sim_filters (simulate toy_rng ''uncommon'' 7))) \<and>
   sim_final (simulate toy_rng ''uncommon'' 7) = RayTmp 31 \<and>
   count_list (concat (map inputs (sim_filters (simulate toy_rng ''uncommon'' 7)))) (Tmp 59) = 1 \<and>
   RayTmp 31 \<in> set (map out_label (sim_filters (simulate toy_rng ''uncommon'' 7))) \<and>
   count_list (concat (map inputs (sim_filters (simulate toy_rng ''uncommon'' 7)))) (RayTmp 31) = 0 \<and>
   2 < length (sim_filters (simulate toy_rng ''uncommon'' 7)) \<and>
   set (inputs (sim_filters (simulate toy_rng ''uncommon'' 7) ! 2))
     \<subseteq> set (map out_label (take 2 (sim_filters (simulate toy_rng ''uncommon'' 7))))"
proof -
  have a: "Tmp 59 \<in> set (map out_label (sim_filters (simulate toy_rng ''uncommon'' 7)))"
    unfolding out_labels_eq by (auto simp: totals)
  have b: "RayTmp 31 \<in> set (map out_label (sim_filters (simulate toy_rng ''uncommon'' 7)))"
    unfolding out_labels_eq by (auto simp: totals)
  have c: "sim_final (simulate toy_rng ''uncommon'' 7) = RayTmp 31"
    by (simp add: sim_final_eq totals)
  have d: "2 < length (sim_filters (simulate toy_rng ''uncommon'' 7))"
    by (simp add: sim_filters_length totals)
  show ?thesis
    using a b c d composition_graph_is_linear_chain [of toy_rng "''uncommon''" 7 "''out.mp4''"]
    unfolding Let_def by (simp del: set_map)
qed

subsection \<open>The encoder invocation and the driver\<close>

lemma ccv_result:
  "fst (create_celebration_video R enc rarity path w) =
     succeeded (enc (build_cmd (simulate R rarity (rng_state w)) path))"
  by (cases "enc (build_cmd (simulate R rarity (rng_state w)) path)")
    (simp_all add: create_celebration_video_def Let_def)

lemma ccv_run_calls:
  "run_calls (snd (create_celebration_video R enc rarity path w)) =
     run_calls w @ [build_cmd (simulate R rarity (rng_state w)) path]"
  by (cases "enc (build_cmd (simulate R rarity (rng_state w)) path)")
    (simp_all add: create_celebration_video_def Let_def say_def)

lemma ccv_printed:
  "printed (snd (create_celebration_video R enc rarity path w)) =
     printed w @ [Generating rarity, CommandPreview,
       outcome_message rarity path (enc (build_cmd (simulate R rarity (rng_state w)) path))]"
  by (cases "enc (build_cmd (simulate R rarity (rng_state w)) path)")
    (simp_all add: create_celebration_video_def Let_def say_def outcome_message_def)

lemma ccv_rng_state:
  "rng_state (snd (create_celebration_video R enc rarity path w)) =
     sim_rng (simulate R rarity (rng_state w))"
  by (cases "enc (build_cmd (simulate R rarity (rng_state w)) path)")
    (simp_all add: create_celebration_video_def Let_def say_def)

text \<open>
  Claim C3, as amended. A rarity outside \<open>{common, uncommon, rare}\<close> raises no error: it
  takes the final \<^verbatim>\<open>else\<close> branch and so the rare tier's settings (100 particles), the
  graph is compiled, the encoder is invoked exactly once with it, and the call returns
  \<^verbatim>\<open>True\<close> exactly when the encoder's return code is 0.
\<close>

theorem unsupported_rarity_is_rendered:
  assumes "rarity \<notin> {''common'', ''uncommon'', ''rare''}"
  shows "rarity_settings rarity = rarity_settings ''rare'' \<and>
         length (sim_particles (simulate R rarity (rng_state w))) = 100 \<and>
         run_calls (snd (create_celebration_video R enc rarity path w)) =
           run_calls w @ [build_cmd (simulate R rarity (rng_state w)) path] \<and>
         fst (create_celebration_video R enc rarity path w) =
           succeeded (enc (build_cmd (simulate R rarity (rng_state w)) path))"
proof -
  from assms have s: "rarity_settings rarity = rarity_settings ''rare''"
    by (simp add: rarity_settings_def)
  have "particle_total rarity = particle_total ''rare''"
    unfolding particle_total_def s ..
  then have "length (sim_particles (simulate R rarity (rng_state w))) = 100"
    by (simp add: sim_particles_eq totals)
  with s show ?thesis
    using ccv_result [of R enc rarity path w] ccv_run_calls [of R enc rarity path w]
    by blast
qed

theorem unsupported_rarity_is_rendered_witness:
  "''epic'' \<notin> {''common'', ''uncommon'', ''rare''} \<and>
   rarity_settings ''epic'' = rarity_settings ''rare'' \<and>
   length (sim_particles (simulate toy_rng ''epic'' (rng_state world0))) = 100 \<and>
   run_calls (snd (create_celebration_video toy_rng enc_ok ''epic'' ''epic.mp4'' world0)) =
     run_calls world0 @ [build_cmd (simulate toy_rng ''epic'' (rng_state world0)) ''epic.mp4''] \<and>
   fst (create_celebration_video toy_rng enc_ok ''epic'' ''epic.mp4'' world0) =
     succeeded (enc_ok (build_cmd (simulate toy_rng ''epic'' (rng_state world0)) ''epic.mp4''))"
proof -
  have h: "''epic'' \<notin> {''common'', ''uncommon'', ''rare''}"
    by simp
  show ?thesis
    using h unsupported_rarity_is_rendered [OF h, of toy_rng world0 enc_ok "''epic.mp4''"]
    by blast
qed

text \<open>
  Claim C3 as stated fails: with an encoder that accepts the command, the call for
  \<^verbatim>\<open>"epic"\<close> returns \<^verbatim>\<open>True\<close>, has invoked the encoder once and has printed the
  success line.
\<close>

theorem epic_is_encoded:
  "fst (create_celebration_video toy_rng enc_ok ''epic'' ''epic.mp4'' world0) \<and>
   length (run_calls (snd (create_celebration_video toy_rng enc_ok ''epic'' ''epic.mp4'' world0))) = 1 \<and>
   printed (snd (create_celebration_video toy_rng enc_ok ''epic'' ''epic.mp4'' world0)) =
     [Generating ''epic'', CommandPreview, Created ''epic.mp4'']"
proof -
  have "run_calls world0 = []" "printed world0 = []"
    by (simp_all add: world0_def)
  then show ?thesis
    by (simp add: ccv_result ccv_run_calls ccv_printed enc_ok_def outcome_message_def)
qed

lemma build_cmd_output_path: "cmd_output_path (build_cmd s path) = path"
  by (simp add: build_cmd_def)

lemma main_loop_Cons:
  "main_loop R enc (rarity # rest) w =
     (if fst (create_celebration_video R enc rarity (output_path_of rarity) w)
      then main_loop R enc rest (snd (create_celebration_video R enc rarity (output_path_of rarity) w))
      else (False, say [FailedToCreate rarity]
              (snd (create_celebration_video R enc rarity (output_path_of rarity) w))))"
  by (simp add: case_prod_beta)

lemma main_loop_calls:
  "\<exists>cs. run_calls (snd (main_loop R enc rs w)) = run_calls w @ cs \<and>
        map cmd_output_path cs = take (length cs) (map output_path_of rs) \<and>
        length cs \<le> length rs \<and> (rs = [] \<or> cs \<noteq> []) \<and>
        list_all (\<lambda>c. succeeded (enc c)) (butlast cs) \<and>
        fst (main_loop R enc rs w) = list_all (\<lambda>c. succeeded (enc c)) cs \<and>
        fst (main_loop R enc rs w) =
          (length cs = length rs \<and> list_all (\<lambda>c. succeeded (enc c)) cs) \<and>
        last (printed (snd (main_loop R enc rs w))) =
          (if fst (main_loop R enc rs w) then SavedTo output_dir
           else FailedToCreate (rs ! (length cs - 1)))"
proof (induction rs arbitrary: w)
  case Nil
  show ?case by (simp add: say_def)
next
  case (Cons r rest)
  let ?c = "build_cmd (simulate R r (rng_state w)) (output_path_of r)"
  let ?w1 = "snd (create_celebration_video R enc r (output_path_of r) w)"
  show ?case
  proof (cases "succeeded (enc ?c)")
    case False
    then have "main_loop R enc (r # rest) w = (False, say [FailedToCreate r] ?w1)"
      by (simp only: main_loop_Cons ccv_result if_False)
    then show ?thesis
      using False
      by (intro exI [of _ "[?c]"]) (simp add: say_def ccv_run_calls build_cmd_output_path)
  next
    case True
    then have eq: "main_loop R enc (r # rest) w = main_loop R enc rest ?w1"
      by (simp only: main_loop_Cons ccv_result if_True)
    from Cons.IH [of ?w1] obtain cs where cs:
      "run_calls (snd (main_loop R enc rest ?w1)) = run_calls ?w1 @ cs"
      "map cmd_output_path cs = take (length cs) (map output_path_of rest)"
      "length cs \<le> length rest" "rest = [] \<or> cs \<noteq> []"
      "list_all (\<lambda>c. succeeded (enc c)) (butlast cs)"
      "fst (main_loop R enc rest ?w1) =
         (length cs = length rest \<and> list_all (\<lambda>c. succeeded (enc c)) cs)"
      "fst (main_loop R enc rest ?w1) = list_all (\<lambda>c. succeeded (enc c)) cs"
      "last (printed (snd (main_loop R enc rest ?w1))) =
         (if fst (main_loop R enc rest ?w1) then SavedTo output_dir
          else FailedToCreate (rest ! (length cs - 1)))"
      by blast
    have idx: "\<not> fst (main_loop R enc rest ?w1) \<Longrightarrow>
        (r # rest) ! (length (?c # cs) - 1) = rest ! (length cs - 1)"
      using cs(4) cs(6) by (cases cs) auto
    show ?thesis
      unfolding eq
      using True cs(1-6) idx cs(7,8)
      by (intro exI [of _ "?c # cs"]) (simp add: ccv_run_calls build_cmd_output_path)
  qed
qed

lemma main_calls:
  "run_calls (snd (main R enc w)) = run_calls w @ new_calls w (snd (main R enc w)) \<and>
   map cmd_output_path (new_calls w (snd (main R enc w))) =
     take (length (new_calls w (snd (main R enc w)))) (map output_path_of rarities) \<and>
   1 \<le> length (new_calls w (snd (main R enc w))) \<and>
   length (new_calls w (snd (main R enc w))) \<le> 3 \<and>
   list_all (\<lambda>c. succeeded (enc c)) (butlast (new_calls w (snd (main R enc w)))) \<and>
   fst (main R enc w) = list_all (\<lambda>c. succeeded (enc c)) (new_calls w (snd (main R enc w))) \<and>
   fst (main R enc w) = (length (new_calls w (snd (main R enc w))) = 3 \<and>
      list_all (\<lambda>c. succeeded (enc c)) (new_calls w (snd (main R enc w)))) \<and>
   last (printed (snd (main R enc w))) =
     (if fst (main R enc w) then SavedTo output_dir
      else FailedToCreate (rarities ! (length (new_calls w (snd (main R enc w))) - 1)))"
proof -
  from main_loop_calls [of R enc rarities w] obtain cs where cs:
    "run_calls (snd (main_loop R enc rarities w)) = run_calls w @ cs"
    "map cmd_output_path cs = take (length cs) (map output_path_of rarities)"
    "length cs \<le> length rarities" "rarities = [] \<or> cs \<noteq> []"
    "list_all (\<lambda>c. succeeded (enc c)) (butlast cs)"
    "fst (main_loop R enc rarities w) = list_all (\<lambda>c. succeeded (enc c)) cs"
    "fst (main_loop R enc rarities w) =
       (length cs = length rarities \<and> list_all (\<lambda>c. succeeded (enc c)) cs)"
    "last (printed (snd (main_loop R enc rarities w))) =
       (if fst (main_loop R enc rarities w) then SavedTo output_dir
        else FailedToCreate (rarities ! (length cs - 1)))"
    by blast
  have new: "new_calls w (snd (main R enc w)) = cs"
    by (simp add: new_calls_def main_def cs(1))
  have len: "length rarities = 3" "rarities \<noteq> []"
    by (simp_all add: rarities_def)
  from cs(4) len(2) have "1 \<le> length cs"
    by (cases cs) simp_all
  then show ?thesis
    unfolding new using cs len(1) by (simp add: main_def)
qed

lemma first_failure_is_last:
  assumes "cs \<noteq> []" "list_all ok (butlast cs)" "\<not> list_all ok cs"
  shows "takeWhile ok cs = butlast cs"
proof -
  from assms(1) obtain xs x where cs: "cs = xs @ [x]"
    by (metis append_butlast_last_id)
  with assms(2,3) have "\<not> ok x" "\<forall>y \<in> set xs. ok y"
    by (simp_all add: list_all_iff)
  then have "takeWhile ok (xs @ [x]) = xs"
    by (simp add: takeWhile_tail)
  with cs show ?thesis
    by simp
qed

lemma main_unfolded:
  "main R enc w =
    (let r1 = create_celebration_video R enc ''common'' (output_path_of ''common'') w;
         r2 = create_celebration_video R enc ''uncommon'' (output_path_of ''uncommon'') (snd r1);
         r3 = create_celebration_video R enc ''rare'' (output_path_of ''rare'') (snd r2)
     in if \<not> fst r1 then (False, say [FailedToCreate ''common''] (snd r1))
        else if \<not> fst r2 then (False, say [FailedToCreate ''uncommon''] (snd r2))
        else if \<not> fst r3 then (False, say [FailedToCreate ''rare''] (snd r3))
        else (True, say [AllGenerated, SavedTo output_dir] (snd r3)))"
  unfolding Let_def main_def rarities_def main_loop_Cons by simp

lemma main_call_count:
  "length (new_calls w (snd (main R enc w))) =
     (if list_all (\<lambda>c. succeeded (enc c)) (new_calls w (snd (main R enc w))) then 3
      else Suc (length (takeWhile (\<lambda>c. succeeded (enc c)) (new_calls w (snd (main R enc w))))))"
proof (cases "list_all (\<lambda>c. succeeded (enc c)) (new_calls w (snd (main R enc w)))")
  case True
  have "fst (main R enc w) = list_all (\<lambda>c. succeeded (enc c)) (new_calls w (snd (main R enc w)))"
    and "fst (main R enc w) = (length (new_calls w (snd (main R enc w))) = 3 \<and>
      list_all (\<lambda>c. succeeded (enc c)) (new_calls w (snd (main R enc w))))"
    using main_calls [of R enc w] by blast+
  with True show ?thesis
    by auto
next
  case False
  have ne: "new_calls w (snd (main R enc w)) \<noteq> []"
    using main_calls [of R enc w] by auto
  moreover have "list_all (\<lambda>c. succeeded (enc c)) (butlast (new_calls w (snd (main R enc w))))"
    using main_calls [of R enc w] by blast
  ultimately have "takeWhile (\<lambda>c. succeeded (enc c)) (new_calls w (snd (main R enc w))) =
      butlast (new_calls w (snd (main R enc w)))"
    using False by (rule first_failure_is_last)
  then show ?thesis
    using False ne by simp
qed

text \<open>
  Claim C4, as amended. \<^verbatim>\<open>main()\<close> runs the job of common; if it fails it prints
  \<^verbatim>\<open>Failed to create common video\<close> and returns \<^verbatim>\<open>False\<close> at once, otherwise it goes on to
  uncommon, and likewise to rare; it returns \<^verbatim>\<open>True\<close> with the summary printed only after
  three successful jobs. In terms of the encoder invocations it makes: they are for the
  tiers common, uncommon, rare in this order, every invocation but the last has succeeded,
  their number is 3 when all succeed and otherwise one more than the number of leading
  successes (the tiers up to and including the first failing one), and the result is
  \<^verbatim>\<open>False\<close> exactly when an invocation failed.
\<close>

theorem driver_stops_at_first_failure:
  "(let r1 = create_celebration_video R enc ''common'' (output_path_of ''common'') w;
        r2 = create_celebration_video R enc ''uncommon'' (output_path_of ''uncommon'') (snd r1);
        r3 = create_celebration_video R enc ''rare'' (output_path_of ''rare'') (snd r2);
        w' = snd (main R enc w);
        cs = new_calls w w'
    in main R enc w =
         (if \<not> fst r1 then (False, say [FailedToCreate ''common''] (snd r1))
          else if \<not> fst r2 then (False, say [FailedToCreate ''uncommon''] (snd r2))
          else if \<not> fst r3 then (False, say [FailedToCreate ''rare''] (snd r3))
          else (True, say [AllGenerated, SavedTo output_dir] (snd r3))) \<and>
       run_calls w' = run_calls w @ cs \<and>
       map cmd_output_path cs = take (length cs) (map output_path_of rarities) \<and>
       1 \<le> length cs \<and> length cs \<le> 3 \<and>
       list_all (\<lambda>c. succeeded (enc c)) (butlast cs) \<and>
       fst (main R enc w) = list_all (\<lambda>c. succeeded (enc c)) cs \<and>
       length cs =
         (if list_all (\<lambda>c. succeeded (enc c)) cs then 3
          else Suc (length (takeWhile (\<lambda>c. succeeded (enc c)) cs))) \<and>
       last (printed w') =
         (if list_all (\<lambda>c. succeeded (enc c)) cs then SavedTo output_dir
          else FailedToCreate (rarities ! (length cs - 1))))"
proof -
  have "main R enc w =
    (if \<not> fst (create_celebration_video R enc ''common'' (output_path_of ''common'') w)
     then (False, say [FailedToCreate ''common'']
             (snd (create_celebration_video R enc ''common'' (output_path_of ''common'') w)))
     else if \<not> fst (create_celebration_video R enc ''uncommon'' (output_path_of ''uncommon'')
             (snd (create_celebration_video R enc ''common'' (output_path_of ''common'') w)))
     then (False, say [FailedToCreate ''uncommon'']
             (snd (create_celebration_video R enc ''uncommon'' (output_path_of ''uncommon'')
               (snd (create_celebration_video R enc ''common'' (output_path_of ''common'') w)))))
     else if \<not> fst (create_celebration_video R enc ''rare'' (output_path_of ''rare'')
             (snd (create_celebration_video R enc ''uncommon'' (output_path_of ''uncommon'')
               (snd (create_celebration_video R enc ''common'' (output_path_of ''common'') w)))))
     then (False, say [FailedToCreate ''rare'']
             (snd (create_celebration_video R enc ''rare'' (output_path_of ''rare'')
               (snd (create_celebration_video R enc ''uncommon'' (output_path_of ''uncommon'')
                 (snd (create_celebration_video R enc ''common'' (output_path_of ''common'')
                   w)))))))
     else (True, say [AllGenerated, SavedTo output_dir]
             (snd (create_celebration_video R enc ''rare'' (output_path_of ''rare'')
               (snd (create_celebration_video R enc ''uncommon'' (output_path_of ''uncommon'')
                 (snd (create_celebration_video R enc ''common'' (output_path_of ''common'')
                   w))))))))"
    using main_unfolded [of R enc w] unfolding Let_def .
  then show ?thesis
    unfolding Let_def
    using main_calls [of R enc w] main_call_count [where enc = enc and w = w and R = R]
    by (intro conjI) (assumption | simp)+
qed

text \<open>
  Claim C4 as stated fails: with an encoder that exits with code 1, the job for common
  fails, the driver makes no invocation for uncommon or rare, and prints nothing about
  them.
\<close>

theorem failed_tier_ends_the_batch:
  "\<not> fst (create_celebration_video toy_rng enc_fail ''common'' (output_path_of ''common'') world0) \<and>
   map cmd_output_path (run_calls (snd (main toy_rng enc_fail world0))) =
     [output_path_of ''common''] \<and>
   printed (snd (main toy_rng enc_fail world0)) =
     [Generating ''common'', CommandPreview, FFmpegError ''Invalid argument'',
      FailedToCreate ''common'']"
proof -
  have w0: "run_calls world0 = []" "printed world0 = []"
    by (simp_all add: world0_def)
  have f: "\<not> fst (create_celebration_video toy_rng enc_fail ''common''
             (output_path_of ''common'') world0)"
    by (simp add: ccv_result enc_fail_def)
  then have "main toy_rng enc_fail world0 =
      (False, say [FailedToCreate ''common'']
         (snd (create_celebration_video toy_rng enc_fail ''common''
            (output_path_of ''common'') world0)))"
    by (simp only: main_def rarities_def main_loop_Cons if_False)
  then show ?thesis
    using f w0
    by (simp add: say_def ccv_run_calls ccv_printed build_cmd_output_path enc_fail_def
        outcome_message_def)
qed

text \<open>
  Claim C5, as amended. \<^verbatim>\<open>main()\<close> returns \<^verbatim>\<open>True\<close> exactly when the jobs of all three
  tiers, run one after the other, succeed: exactly when it has invoked the encoder three
  times and every invocation succeeded.
\<close>

theorem main_returns_overall_success:
  "(let r1 = create_celebration_video R enc ''common'' (output_path_of ''common'') w;
        r2 = create_celebration_video R enc ''uncommon'' (output_path_of ''uncommon'') (snd r1);
        r3 = create_celebration_video R enc ''rare'' (output_path_of ''rare'') (snd r2)
    in fst (main R enc w) = (fst r1 \<and> fst r2 \<and> fst r3)) \<and>
   fst (main R enc w) =
     (length (new_calls w (snd (main R enc w))) = 3 \<and>
      list_all (\<lambda>c. succeeded (enc c)) (new_calls w (snd (main R enc w))))"
proof -
  have "(let r1 = create_celebration_video R enc ''common'' (output_path_of ''common'') w;
        r2 = create_celebration_video R enc ''uncommon'' (output_path_of ''uncommon'') (snd r1);
        r3 = create_celebration_video R enc ''rare'' (output_path_of ''rare'') (snd r2)
    in fst (main R enc w) = (fst r1 \<and> fst r2 \<and> fst r3))"
    unfolding Let_def main_def rarities_def main_loop_Cons by simp
  then show ?thesis
    using main_calls [of R enc w] by blast
qed

text \<open>
  Claim C5 as stated fails: with an encoder that exits with code 1 the job for common
  fails and \<^verbatim>\<open>main()\<close> returns \<^verbatim>\<open>False\<close>, and the script's exit status is 0.
\<close>

theorem exit_status_ignores_failure:
  "fst (script_exit_status toy_rng enc_fail world0) = 0 \<and>
   \<not> fst (main toy_rng enc_fail world0) \<and>
   \<not> fst (create_celebration_video toy_rng enc_fail ''common'' (output_path_of ''common'') world0)"
proof -
  have f: "\<not> fst (create_celebration_video toy_rng enc_fail ''common''
             (output_path_of ''common'') world0)"
    by (simp add: ccv_result enc_fail_def)
  then have "\<not> fst (main toy_rng enc_fail world0)"
    by (simp only: main_def rarities_def main_loop_Cons if_False fst_conv not_False_eq_True)
  with f show ?thesis
    by (simp add: script_exit_status_def case_prod_beta)
qed

subsection \<open>The sibling variant: opacity present, no seed\<close>

text \<open>
  Every overlay of the sibling's graph carries \<^verbatim>\<open>alpha='1-t/2.0'\<close>, and its particles
  depend on the state the generator is in at the call.
\<close>

lemma dramatic_overlay_opacity:
  "map opacity_of (filter is_overlay (dramatic_particle_filters ip)) =
     [Some (FadeOut dramatic_duration)]"
  by (cases ip) (simp add: dramatic_particle_filters_def Let_def)

lemma dramatic_overlays_carry_opacity:
  "map opacity_of (filter is_overlay (dg_filters (dramatic_simulate R rarity g))) =
     replicate (length (dg_particles (dramatic_simulate R rarity g)))
       (Some (FadeOut dramatic_duration))"
  by (simp add: dramatic_simulate_def Let_def case_prod_beta filter_concat map_concat comp_def
      dramatic_overlay_opacity map_replicate_const)

lemma dramatic_step_keeps_head:
  "ps \<noteq> [] \<Longrightarrow> hd (snd (fold (dramatic_step R cfg) xs (g, ps))) = hd ps"
  by (induction xs arbitrary: g ps) (simp_all add: dramatic_step_def case_prod_beta)

lemma dramatic_first_particle:
  "0 < d_particle_count (dramatic_rarity_settings rarity) \<Longrightarrow>
     hd (dg_particles (dramatic_simulate R rarity g)) =
       fst (draw_dramatic_particle R (dramatic_rarity_settings rarity) 0 g)"
proof -
  assume "0 < d_particle_count (dramatic_rarity_settings rarity)"
  then have "[0..<d_particle_count (dramatic_rarity_settings rarity)] =
      0 # [Suc 0..<d_particle_count (dramatic_rarity_settings rarity)]"
    by (simp add: upt_conv_Cons)
  then show ?thesis
    by (simp add: dramatic_simulate_def Let_def case_prod_beta dramatic_step_keeps_head
        dramatic_step_def)
qed

lemma unseeded_runs_differ:
  "dp_start_x (hd (dg_particles (dramatic_simulate toy_rng ''common'' 0))) = 260 \<and>
   dp_start_x (hd (dg_particles (dramatic_simulate toy_rng ''common'' 1))) = 261 \<and>
   dg_particles (dramatic_simulate toy_rng ''common'' 0) \<noteq>
     dg_particles (dramatic_simulate toy_rng ''common'' 1)"
proof -
  have n: "0 < d_particle_count (dramatic_rarity_settings ''common'')"
    by (simp add: dramatic_rarity_settings_def)
  have a: "dp_start_x (hd (dg_particles (dramatic_simulate toy_rng ''common'' 0))) = 260"
    by (simp add: dramatic_first_particle [OF n] draw_dramatic_particle_def toy_rng_def
        uniform_def Let_def center_x_def width_def)
  have b: "dp_start_x (hd (dg_particles (dramatic_simulate toy_rng ''common'' 1))) = 261"
    by (simp add: dramatic_first_particle [OF n] draw_dramatic_particle_def toy_rng_def
        uniform_def Let_def center_x_def width_def)
  from a b show ?thesis
    by auto
qed

end
